theory Spec2Isabelle
  imports Complex_Main
begin

section \<open>The course list view: filter, sort, paginate\<close>

text \<open>
  The list view of the course catalogue (the \<^verbatim>\<open>Home\<close> page component and its
  \<^verbatim>\<open>Pagination\<close> component) narrows an in-memory array of courses with a filter
  callback, orders it with a sort callback, cuts the current page out of it and
  lays out the page-number buttons. This theory embeds those computations as HOL
  functions and proves the properties the specification states about them.
\<close>

subsection \<open>JavaScript numbers\<close>

text \<open>
  A filter bound is whatever \<^verbatim>\<open>parseFloat\<close> made of the text of an input box:
  a finite number, an infinity or \<^verbatim>\<open>NaN\<close>. Finite numbers are modelled as reals:
  the code only compares them, subtracts two of them and multiplies by \<open>1\<close> or
  \<open>-1\<close>, and on IEEE doubles each of these has the sign and the truth value it
  has on the reals. Negative zero is the real \<open>0\<close> (both are falsy, and compare
  equal).
\<close>

datatype jsnum = NaN | NegInf | Fin real | PosInf

text \<open>\<^verbatim>\<open>a <= b\<close> on numbers: false as soon as one side is \<^verbatim>\<open>NaN\<close>.\<close>

fun js_le :: "jsnum \<Rightarrow> jsnum \<Rightarrow> bool" where
  "js_le NaN b = False"
| "js_le a NaN = False"
| "js_le NegInf b = True"
| "js_le a PosInf = True"
| "js_le (Fin x) (Fin y) = (x \<le> y)"
| "js_le (Fin x) NegInf = False"
| "js_le PosInf b = False"

text \<open>\<^verbatim>\<open>a >= b\<close> on numbers.\<close>

definition js_ge :: "jsnum \<Rightarrow> jsnum \<Rightarrow> bool" where
  "js_ge a b = js_le b a"

text \<open>
  \<^verbatim>\<open>x || d\<close> where \<^verbatim>\<open>x\<close> is \<^verbatim>\<open>number | undefined\<close> (\<open>None\<close> is
  \<^verbatim>\<open>undefined\<close>): the left operand when it is truthy, the right one otherwise.
  The falsy values of that type are \<^verbatim>\<open>undefined\<close>, \<^verbatim>\<open>NaN\<close> and zero.
\<close>

definition js_or :: "jsnum option \<Rightarrow> jsnum \<Rightarrow> jsnum" where
  "js_or x d =
     (case x of
        None \<Rightarrow> d
      | Some NaN \<Rightarrow> d
      | Some (Fin r) \<Rightarrow> (if r = 0 then d else Fin r)
      | Some v \<Rightarrow> v)"

subsection \<open>Courses and view state\<close>

text \<open>
  Modelled from the spec: the \<^verbatim>\<open>Course\<close> type is declared in a module that
  is not among the sources. The specification gives its fields: an identifier, a
  name, the numeric aggregates \<^verbatim>\<open>rating\<close>, \<^verbatim>\<open>difficulty\<close> and \<^verbatim>\<open>workload\<close>,
  each a finite number or absent (\<^verbatim>\<open>null\<close>, here \<open>None\<close>), the review count and
  two booleans. The filter passes \<^verbatim>\<open>reviewCount\<close> to a parameter of type
  \<^verbatim>\<open>number | null\<close> and the sort callback tests every numeric attribute against
  \<^verbatim>\<open>null\<close>, so the review count is given the same type as the other three; a course
  whose review count is never absent is a special case.
\<close>

record course =
  course_id :: string
  name :: string
  rating :: "real option"
  difficulty :: "real option"
  workload :: "real option"
  reviewCount :: "real option"
  isDeprecated :: bool
  isFoundational :: bool

datatype sort_attribute = Name | Difficulty | ReviewCount | Rating | Workload

datatype sort_direction = Desc | Asc

record sort_config =
  attribute :: sort_attribute
  direction :: sort_direction

text \<open>
  The state variables of \<^verbatim>\<open>Home\<close>, one field per \<^verbatim>\<open>useState\<close>. A bound
  declared with \<^verbatim>\<open>useState<number>()\<close> starts as \<^verbatim>\<open>undefined\<close>.
\<close>

record view_state =
  sort_state :: sort_config
  minReviewCount :: "jsnum option"
  maxReviewCount :: "jsnum option"
  minRating :: "jsnum option"
  maxRating :: "jsnum option"
  minDifficulty :: "jsnum option"
  maxDifficulty :: "jsnum option"
  minWorkload :: "jsnum option"
  maxWorkload :: "jsnum option"
  hideDeprecated :: bool
  onlyShowFoundational :: bool
  pageSize :: int
  pageNumber :: int

text \<open>The initial values given to \<^verbatim>\<open>useState\<close> when the view mounts.\<close>

definition initial_state :: view_state where
  "initial_state =
     \<lparr> sort_state = \<lparr> attribute = ReviewCount, direction = Desc \<rparr>,
       minReviewCount = Some (Fin 1),
       maxReviewCount = None,
       minRating = None,
       maxRating = None,
       minDifficulty = None,
       maxDifficulty = None,
       minWorkload = None,
       maxWorkload = None,
       hideDeprecated = False,
       onlyShowFoundational = False,
       pageSize = 10,
       pageNumber = 0 \<rparr>"

subsection \<open>The filter callback\<close>

text \<open>\<^verbatim>\<open>value === null ? true : value >= min && value <= max\<close>\<close>

definition between :: "real option \<Rightarrow> jsnum \<Rightarrow> jsnum \<Rightarrow> bool" where
  "between v mn mx =
     (case v of
        None \<Rightarrow> True
      | Some x \<Rightarrow> js_ge (Fin x) mn \<and> js_le (Fin x) mx)"

text \<open>The callback given to \<^verbatim>\<open>courses.filter\<close>, for one course.\<close>

definition admits :: "view_state \<Rightarrow> course \<Rightarrow> bool" where
  "admits st c =
     (between (reviewCount c)
        (js_or (minReviewCount st) (Fin 0)) (js_or (maxReviewCount st) PosInf) \<and>
      between (rating c) (js_or (minRating st) (Fin 1)) (js_or (maxRating st) (Fin 5)) \<and>
      between (difficulty c)
        (js_or (minDifficulty st) (Fin 1)) (js_or (maxDifficulty st) (Fin 5)) \<and>
      between (workload c)
        (js_or (minWorkload st) (Fin 1)) (js_or (maxWorkload st) (Fin 100)) \<and>
      (if hideDeprecated st then isDeprecated c = False else True) \<and>
      (if onlyShowFoundational st then isFoundational c = True else True))"

definition filtered :: "view_state \<Rightarrow> course list \<Rightarrow> course list" where
  "filtered st courses = filter (admits st) courses"

subsection \<open>The page-number window\<close>

datatype error = RangeError

text \<open>
  \<^verbatim>\<open>Array(n).fill(0).map((_, i) => i)\<close>: an array of \<open>n\<close> zeros, each replaced
  by its index. \<^verbatim>\<open>Array(n)\<close> throws a \<^verbatim>\<open>RangeError\<close> for a negative length.
\<close>

definition index_array :: "int \<Rightarrow> error + int list" where
  "index_array n =
     (if n < 0 then Inl RangeError
      else Inr (map (\<lambda>(i, _). int i) (enumerate 0 (replicate (nat n) (0::int)))))"

text \<open>\<^verbatim>\<open>Math.ceil(resultCount / pageSize)\<close>\<close>

definition totalPages :: "int \<Rightarrow> int \<Rightarrow> int" where
  "totalPages resultCount pgSize = \<lceil>real_of_int resultCount / real_of_int pgSize\<rceil>"

text \<open>The groups of page indices that \<^verbatim>\<open>Pagination\<close> renders, with a gap between
  two consecutive groups.\<close>

definition paginationChunks :: "int \<Rightarrow> int \<Rightarrow> error + int list list" where
  "paginationChunks total_pages pgNumber =
     (if total_pages \<le> 7 then
        (case index_array total_pages of Inl e \<Rightarrow> Inl e | Inr pages \<Rightarrow> Inr [pages])
      else if pgNumber \<le> 3 then Inr [[0, 1, 2, 3, 4], [total_pages - 1]]
      else if total_pages - pgNumber \<le> 4 then
        Inr [[0], map (\<lambda>v. total_pages - v) [5, 4, 3, 2, 1]]
      else Inr [[0], [pgNumber - 1, pgNumber, pgNumber + 1], [total_pages - 1]])"

text \<open>
  The window policy in the words of the specification: at most seven pages, one
  group of all page indices; near the start, the first five and the last; near the
  end, the first and the last five; otherwise the first, the current page with its
  two neighbours, and the last.
\<close>

definition window_spec :: "int \<Rightarrow> int \<Rightarrow> int list list" where
  "window_spec total_pages pgNumber =
     (if total_pages \<le> 7 then [[0 .. total_pages - 1]]
      else if pgNumber \<le> 3 then [[0 .. 4], [total_pages - 1]]
      else if total_pages - pgNumber \<le> 4 then [[0], [total_pages - 5 .. total_pages - 1]]
      else [[0], [pgNumber - 1 .. pgNumber + 1], [total_pages - 1]])"

subsection \<open>The sort callback\<close>

text \<open>
  \<^verbatim>\<open>a[attribute]\<close> for the four numeric attributes. The name is a string and is
  compared in a branch of its own, before any of the \<^verbatim>\<open>null\<close> tests, so the
  last equation is never used by \<open>comparator\<close>.
\<close>

fun numeric :: "sort_attribute \<Rightarrow> course \<Rightarrow> real option" where
  "numeric Difficulty c = difficulty c"
| "numeric ReviewCount c = reviewCount c"
| "numeric Rating c = rating c"
| "numeric Workload c = workload c"
| "numeric Name c = None"

text \<open>
  The callback given to \<^verbatim>\<open>sort\<close>. \<^verbatim>\<open>String.prototype.localeCompare\<close> depends
  on the locale of the browser and is taken as the parameter \<open>lc\<close>: a negative
  number, zero or a positive number.
\<close>

definition comparator ::
  "(string \<Rightarrow> string \<Rightarrow> real) \<Rightarrow> sort_config \<Rightarrow> course \<Rightarrow> course \<Rightarrow> real" where
  "comparator lc cfg a b =
     (let ordering = (if direction cfg = Asc then 1 else - 1) in
      if attribute cfg = Name then lc (name a) (name b) * ordering
      else
        (case numeric (attribute cfg) a of
           None \<Rightarrow> 1
         | Some x \<Rightarrow>
             (case numeric (attribute cfg) b of
                None \<Rightarrow> - 1
              | Some y \<Rightarrow> (x - y) * ordering)))"

subsection \<open>Array.prototype.sort\<close>

text \<open>
  \<^verbatim>\<open>sort\<close> is a built-in of the language. ECMAScript requires it to be stable and
  to order the array by the callback when the callback is a consistent comparison
  function; it fixes neither the algorithm nor the order of the two arguments in a
  call of the callback, and when the callback is not consistent the resulting
  order is implementation-defined. The model is an insertion sort, which is
  stable: the items are taken from left to right, and each one moves towards the
  front of the part already placed for as long as the callback says that it comes
  first. Whether the engine asks \<^verbatim>\<open>comparefn(item, placed) < 0\<close> or
  \<^verbatim>\<open>comparefn(placed, item) > 0\<close> is the parameter \<open>call_order\<close>; for a
  consistent callback the two questions have the same answer.
\<close>

datatype call_order = Item_Placed | Placed_Item

definition moves_ahead :: "call_order \<Rightarrow> ('a \<Rightarrow> 'a \<Rightarrow> real) \<Rightarrow> 'a \<Rightarrow> 'a \<Rightarrow> bool" where
  "moves_ahead ord cmp item placed =
     (case ord of
        Item_Placed \<Rightarrow> cmp item placed < 0
      | Placed_Item \<Rightarrow> cmp placed item > 0)"

text \<open>The part already placed is held back to front: its head is its last element.\<close>

fun insert_item :: "call_order \<Rightarrow> ('a \<Rightarrow> 'a \<Rightarrow> real) \<Rightarrow> 'a \<Rightarrow> 'a list \<Rightarrow> 'a list" where
  "insert_item ord cmp item [] = [item]"
| "insert_item ord cmp item (p # ps) =
     (if moves_ahead ord cmp item p then p # insert_item ord cmp item ps
      else item # p # ps)"

definition array_sort :: "call_order \<Rightarrow> ('a \<Rightarrow> 'a \<Rightarrow> real) \<Rightarrow> 'a list \<Rightarrow> 'a list" where
  "array_sort ord cmp xs = rev (foldl (\<lambda>placed item. insert_item ord cmp item placed) [] xs)"

subsection \<open>The controller\<close>

text \<open>\<^verbatim>\<open>const current = courses.filter(...).sort(...)\<close>\<close>

definition current ::
  "call_order \<Rightarrow> (string \<Rightarrow> string \<Rightarrow> real) \<Rightarrow> view_state \<Rightarrow> course list \<Rightarrow> course list" where
  "current ord lc st courses =
     array_sort ord (comparator lc (sort_state st)) (filtered st courses)"

text \<open>
  The body of the effect that runs after a render, on the array \<^verbatim>\<open>current\<close> of
  that render: \<^verbatim>\<open>if (pageSize * pageNumber >= current.length)
  setPageNumber(Math.floor(current.length / pageSize))\<close>. The page size is one of
  10, 25 and 50, the sizes \<^verbatim>\<open>Pagination\<close> offers, so the division is by a
  positive number.
\<close>

definition page_clamp :: "view_state \<Rightarrow> 'a list \<Rightarrow> view_state" where
  "page_clamp st cur =
     (if pageSize st * pageNumber st \<ge> int (length cur)
      then st\<lparr>pageNumber := \<lfloor>real (length cur) / real_of_int (pageSize st)\<rfloor>\<rparr>
      else st)"

text \<open>One render followed by its effect: recompute \<^verbatim>\<open>current\<close>, then clamp the page.\<close>

definition recompute ::
  "call_order \<Rightarrow> (string \<Rightarrow> string \<Rightarrow> real) \<Rightarrow> view_state \<Rightarrow> course list \<Rightarrow> view_state" where
  "recompute ord lc st courses = page_clamp st (current ord lc st courses)"

text \<open>
  \<^verbatim>\<open>current.slice(pageNumber * pageSize, pageNumber * pageSize + pageSize)\<close>, for
  the non-negative page numbers and sizes of the view.
\<close>

definition slice_page :: "view_state \<Rightarrow> 'a list \<Rightarrow> 'a list" where
  "slice_page st cur =
     take (nat (pageSize st)) (drop (nat (pageNumber st * pageSize st)) cur)"

text \<open>
  The state setters as the \<^verbatim>\<open>onBlur\<close> handlers of the bound inputs call them:
  \<^verbatim>\<open>setMinRating(parseFloat(e.currentTarget.value))\<close>. The argument is the number
  \<^verbatim>\<open>parseFloat\<close> returned, \<^verbatim>\<open>NaN\<close> when the text does not start with a number.
\<close>

definition setMinReviewCount :: "jsnum \<Rightarrow> view_state \<Rightarrow> view_state" where
  "setMinReviewCount v st = st\<lparr>minReviewCount := Some v\<rparr>"

definition setMaxReviewCount :: "jsnum \<Rightarrow> view_state \<Rightarrow> view_state" where
  "setMaxReviewCount v st = st\<lparr>maxReviewCount := Some v\<rparr>"

definition setMinRating :: "jsnum \<Rightarrow> view_state \<Rightarrow> view_state" where
  "setMinRating v st = st\<lparr>minRating := Some v\<rparr>"

definition setMaxRating :: "jsnum \<Rightarrow> view_state \<Rightarrow> view_state" where
  "setMaxRating v st = st\<lparr>maxRating := Some v\<rparr>"

definition setMinDifficulty :: "jsnum \<Rightarrow> view_state \<Rightarrow> view_state" where
  "setMinDifficulty v st = st\<lparr>minDifficulty := Some v\<rparr>"

definition setMaxDifficulty :: "jsnum \<Rightarrow> view_state \<Rightarrow> view_state" where
  "setMaxDifficulty v st = st\<lparr>maxDifficulty := Some v\<rparr>"

definition setMinWorkload :: "jsnum \<Rightarrow> view_state \<Rightarrow> view_state" where
  "setMinWorkload v st = st\<lparr>minWorkload := Some v\<rparr>"

definition setMaxWorkload :: "jsnum \<Rightarrow> view_state \<Rightarrow> view_state" where
  "setMaxWorkload v st = st\<lparr>maxWorkload := Some v\<rparr>"

text \<open>The setter behind \<^verbatim>\<open>onPageChange\<close>.\<close>

definition setPageNumber :: "int \<Rightarrow> view_state \<Rightarrow> view_state" where
  "setPageNumber n st = st\<lparr>pageNumber := n\<rparr>"

text \<open>\<^verbatim>\<open>toggleSort\<close>: a new attribute starts ascending, the same attribute flips.\<close>

definition toggleSort :: "sort_attribute \<Rightarrow> view_state \<Rightarrow> view_state" where
  "toggleSort attr st =
     (if attribute (sort_state st) \<noteq> attr
      then st\<lparr>sort_state := \<lparr> attribute = attr, direction = Asc \<rparr>\<rparr>
      else st\<lparr>sort_state :=
        \<lparr> attribute = attr,
          direction = (if direction (sort_state st) = Asc then Desc else Asc) \<rparr>\<rparr>)"

subsection \<open>The record predicate in the words of the specification\<close>

text \<open>
  The range filter of the specification: an absent value passes, a present one
  passes when it lies between the bounds, both included.
\<close>

definition passes :: "real option \<Rightarrow> jsnum \<Rightarrow> jsnum \<Rightarrow> bool" where
  "passes v mn mx =
     (case v of None \<Rightarrow> True | Some x \<Rightarrow> js_le mn (Fin x) \<and> js_le (Fin x) mx)"

text \<open>
  A course is admitted when it passes the four range filters, each with the bounds
  in effect (the bound of the state, or the default of the attribute's domain where
  the caller falls back to it), is not deprecated when deprecated courses are
  hidden, and is foundational when only foundational courses are shown.
\<close>

definition admit_spec :: "view_state \<Rightarrow> course \<Rightarrow> bool" where
  "admit_spec st c =
     (passes (reviewCount c)
        (js_or (minReviewCount st) (Fin 0)) (js_or (maxReviewCount st) PosInf) \<and>
      passes (rating c) (js_or (minRating st) (Fin 1)) (js_or (maxRating st) (Fin 5)) \<and>
      passes (difficulty c)
        (js_or (minDifficulty st) (Fin 1)) (js_or (maxDifficulty st) (Fin 5)) \<and>
      passes (workload c)
        (js_or (minWorkload st) (Fin 1)) (js_or (maxWorkload st) (Fin 100)) \<and>
      (hideDeprecated st \<longrightarrow> \<not> isDeprecated c) \<and>
      (onlyShowFoundational st \<longrightarrow> isFoundational c))"

text \<open>Two courses without reviews and one with reviews, for the examples below.\<close>

definition course_a :: course where
  "course_a =
     \<lparr> course_id = ''a'', name = ''Algorithms'', rating = None, difficulty = None,
       workload = None, reviewCount = Some 0, isDeprecated = False,
       isFoundational = True \<rparr>"

definition course_b :: course where
  "course_b =
     \<lparr> course_id = ''b'', name = ''Networks'', rating = None, difficulty = None,
       workload = None, reviewCount = Some 0, isDeprecated = False,
       isFoundational = False \<rparr>"

definition course_c :: course where
  "course_c =
     \<lparr> course_id = ''c'', name = ''Compilers'', rating = Some 4, difficulty = Some 3,
       workload = Some 20, reviewCount = Some 12, isDeprecated = False,
       isFoundational = False \<rparr>"

text \<open>A catalogue of 23 reviewed courses, 20 of them rated 4 and three rated 2.\<close>

definition course_d :: course where
  "course_d =
     \<lparr> course_id = ''d'', name = ''Databases'', rating = Some 2, difficulty = Some 4,
       workload = Some 35, reviewCount = Some 3, isDeprecated = False,
       isFoundational = False \<rparr>"

definition catalogue :: "course list" where
  "catalogue = replicate 20 course_c @ replicate 3 course_d"

section \<open>Properties\<close>

subsection \<open>Range filter\<close>

text \<open>
  Claim C4. An absent attribute value passes the range filter whatever the bounds
  are: \<open>between\<close> of \<^verbatim>\<open>null\<close> is true for every minimum and maximum (finite or
  not). In particular the rating bounds have no say on a course without a rating:
  whatever they are set to, the filter decides on such a course as it did before.
\<close>

theorem between_null_passes:
  "between None mn mx = True \<and>
   admits (st\<lparr>minRating := lo, maxRating := hi\<rparr>) (c\<lparr>rating := None\<rparr>) =
     admits st (c\<lparr>rating := None\<rparr>)"
  by (simp add: between_def admits_def)

subsection \<open>Page window\<close>

lemma enumerate_replicate_indices:
  "map (\<lambda>(i, _). int i) (enumerate k (replicate n (z::int))) = map int [k ..< k + n]"
  by (induction n arbitrary: k) (simp_all add: upt_rec)

lemma map_int_upt: "map int [0 ..< n] = [0 .. int n - 1]"
proof (induction n)
  case 0
  show ?case by simp
next
  case (Suc n)
  have "[0 .. int (Suc n) - 1] = [0 .. int n - 1] @ [int n]"
    using upto_rec2 [of 0 "int n"] by simp
  with Suc show ?case by simp
qed

lemma index_array_upto: "0 \<le> n \<Longrightarrow> index_array n = Inr [0 .. n - 1]"
  using map_int_upt [of "nat n"]
  by (simp add: index_array_def enumerate_replicate_indices)

lemma upto_first_five: "[0 .. 4::int] = [0, 1, 2, 3, 4]"
  by (simp add: upto_rec1)

lemma upto_last_five: "[t - 5 .. t - 1] = [t - 5, t - 4, t - 3, t - 2, t - (1::int)]"
  by (simp add: upto_rec1)

lemma upto_neighbours: "[p - 1 .. p + 1] = [p - 1, p, p + (1::int)]"
  by (simp add: upto_rec1)

text \<open>
  Claim C2. For every number of pages \<open>total_pages \<ge> 1\<close> and every page number
  from \<open>0\<close> to \<open>total_pages - 1\<close>, the groups computed by \<^verbatim>\<open>Pagination\<close> are the
  groups of the four-case policy of the specification: all pages in one group up
  to seven pages; the first five and the last page near the start; the first and
  the last five pages near the end; the first page, the current page with its two
  neighbours, and the last page otherwise.
\<close>

theorem paginationChunks_window_spec:
  assumes "1 \<le> total_pages" and "0 \<le> pgNumber" and "pgNumber < total_pages"
  shows "paginationChunks total_pages pgNumber = Inr (window_spec total_pages pgNumber)"
  using assms
  by (simp add: paginationChunks_def window_spec_def index_array_upto
      upto_first_five upto_last_five upto_neighbours)

theorem paginationChunks_window_spec_witness:
  "(1::int) \<le> 10 \<and> (0::int) \<le> 5 \<and> (5::int) < 10 \<and>
   paginationChunks 10 5 = Inr [[0], [4, 5, 6], [9]]"
  using paginationChunks_window_spec [of 10 5]
  by (simp add: window_spec_def upto_rec1)

text \<open>
  Claim C8, as the code has it. With no pages at all (\<open>total_pages = 0\<close>) the
  window holds no page index, but it is not an empty list of groups: the first
  branch always builds one group, which is then empty.
\<close>

theorem paginationChunks_zero_pages: "paginationChunks 0 pgNumber = Inr [[]]"
  by (simp add: paginationChunks_def index_array_def)

text \<open>The list of groups for zero pages is not the empty list.\<close>

theorem paginationChunks_zero_pages_not_empty: "paginationChunks 0 0 \<noteq> Inr []"
  by (simp add: paginationChunks_def index_array_def)

text \<open>An empty result has zero pages, hence the one empty group.\<close>

lemma totalPages_no_results: "0 < pgSize \<Longrightarrow> totalPages 0 pgSize = 0"
  by (simp add: totalPages_def)

lemma paginationChunks_no_results:
  "0 < pgSize \<Longrightarrow> paginationChunks (totalPages 0 pgSize) pgNumber = Inr [[]]"
  by (simp add: totalPages_def paginationChunks_def index_array_def)

subsection \<open>The sort model keeps the elements\<close>

lemma length_insert_item: "length (insert_item ord cmp x ps) = Suc (length ps)"
  by (induction ps) simp_all

lemma set_insert_item: "set (insert_item ord cmp x ps) = insert x (set ps)"
  by (induction ps) auto

lemma length_foldl_insert_item:
  "length (foldl (\<lambda>placed item. insert_item ord cmp item placed) acc xs) =
   length acc + length xs"
  by (induction xs arbitrary: acc) (simp_all add: length_insert_item)

lemma set_foldl_insert_item:
  "set (foldl (\<lambda>placed item. insert_item ord cmp item placed) acc xs) = set acc \<union> set xs"
  by (induction xs arbitrary: acc) (simp_all add: set_insert_item)

lemma length_array_sort: "length (array_sort ord cmp xs) = length xs"
  by (simp add: array_sort_def length_foldl_insert_item)

lemma set_array_sort: "set (array_sort ord cmp xs) = set xs"
  by (simp add: array_sort_def set_foldl_insert_item)

lemma length_current: "length (current ord lc st courses) = length (filtered st courses)"
  by (simp add: current_def length_array_sort)

lemma set_current: "set (current ord lc st courses) = set (filtered st courses)"
  by (simp add: current_def set_array_sort)

subsection \<open>Record predicate\<close>

lemma passes_between: "passes v mn mx = between v mn mx"
  by (simp add: passes_def between_def js_ge_def split: option.splits)

lemma admit_spec_admits: "admit_spec st c = admits st c"
  by (simp add: admit_spec_def admits_def passes_between)

lemma admits_course_c: "admits initial_state course_c"
  by (simp add: admits_def between_def js_or_def js_ge_def initial_state_def course_c_def)

lemma not_admits_course_a: "\<not> admits initial_state course_a"
  by (simp add: admits_def between_def js_or_def js_ge_def initial_state_def course_a_def)

text \<open>
  Claim C5. For every course collection and every filter state, a course is in
  the filtered result exactly when it is in the collection, passes the four range
  filters (review count, rating, difficulty, workload, each with the bounds in
  effect and with an absent value passing), is not deprecated if deprecated
  courses are hidden, and is foundational if only foundational courses are shown.
  Read from right to left: every course of the collection that is left out
  violates one of these constraints.
\<close>

theorem current_admits_exactly:
  "c \<in> set (current ord lc st courses) \<longleftrightarrow> c \<in> set courses \<and> admit_spec st c"
  by (simp add: set_current filtered_def admit_spec_admits)

theorem current_admits_exactly_witness:
  "course_c \<in> set (current Item_Placed (\<lambda>a b. 0) initial_state [course_a, course_c]) \<and>
   course_a \<notin> set (current Item_Placed (\<lambda>a b. 0) initial_state [course_a, course_c])"
  using current_admits_exactly
      [of course_c Item_Placed "\<lambda>a b. 0" initial_state "[course_a, course_c]"]
    current_admits_exactly
      [of course_a Item_Placed "\<lambda>a b. 0" initial_state "[course_a, course_c]"]
  by (simp add: admit_spec_admits admits_course_c not_admits_course_a)

text \<open>
  Claim C9. When the view mounts, the minimum review count is 1, not the default
  0 of the review-count domain, so no course with a review count of 0 is in the
  filtered result of the initial state.
\<close>

theorem initial_state_hides_unreviewed:
  "minReviewCount initial_state = Some (Fin 1) \<and>
   (reviewCount c = Some 0 \<longrightarrow> c \<notin> set (current ord lc initial_state courses))"
  by (simp add: set_current filtered_def admits_def between_def js_or_def js_ge_def
      initial_state_def)

theorem initial_state_hides_unreviewed_witness:
  "reviewCount course_a = Some 0 \<and>
   course_a \<notin> set (current Item_Placed (\<lambda>a b. 0) initial_state [course_a, course_c])"
  using initial_state_hides_unreviewed
      [of course_a Item_Placed "\<lambda>a b. 0" "[course_a, course_c]"]
  by (simp add: course_a_def)

subsection \<open>Sort callback\<close>

text \<open>
  Claim C3. For every numeric sort attribute (rating, difficulty, workload, review
  count), both directions and every two courses \<open>a\<close> and \<open>b\<close> such that the
  attribute is absent in \<open>a\<close> and present in \<open>b\<close>, the callback ranks \<open>a\<close> after
  \<open>b\<close>: it is positive on \<open>(a, b)\<close> and negative on \<open>(b, a)\<close>, and neither value
  changes with the direction. The direction only enters where both values are
  present: there the callback is their difference, multiplied by \<open>1\<close> for
  ascending and by \<open>-1\<close> for descending order.
\<close>

theorem comparator_null_last:
  assumes "attribute cfg \<noteq> Name"
    and "numeric (attribute cfg) a = None"
    and "numeric (attribute cfg) b = Some y"
  shows "comparator lc cfg a b > 0 \<and> comparator lc cfg b a < 0 \<and>
         comparator lc (cfg\<lparr>direction := Asc\<rparr>) a b =
           comparator lc (cfg\<lparr>direction := Desc\<rparr>) a b \<and>
         comparator lc (cfg\<lparr>direction := Asc\<rparr>) b a =
           comparator lc (cfg\<lparr>direction := Desc\<rparr>) b a \<and>
         (\<forall>p q x z.
            numeric (attribute cfg) p = Some x \<and> numeric (attribute cfg) q = Some z \<longrightarrow>
            comparator lc cfg p q = (x - z) * (if direction cfg = Asc then 1 else - 1))"
  using assms by (simp add: comparator_def)

theorem comparator_null_last_witness:
  "comparator (\<lambda>a b. 0) \<lparr> attribute = Rating, direction = Desc \<rparr> course_a course_c > 0 \<and>
   comparator (\<lambda>a b. 0) \<lparr> attribute = Rating, direction = Desc \<rparr> course_c course_a < 0"
  using comparator_null_last
      [of "\<lparr> attribute = Rating, direction = Desc \<rparr>" course_a course_c 4 "\<lambda>a b. 0"]
  by (simp add: course_a_def course_c_def)

lemma comparator_tie_present:
  assumes "attribute cfg \<noteq> Name"
    and "numeric (attribute cfg) a = Some x"
    and "numeric (attribute cfg) b = Some x"
  shows "comparator lc cfg a b = 0"
  using assms by (simp add: comparator_def)

lemma comparator_both_absent:
  assumes "attribute cfg \<noteq> Name"
    and "numeric (attribute cfg) a = None"
    and "numeric (attribute cfg) b = None"
  shows "comparator lc cfg a b = 1 \<and> comparator lc cfg b a = 1"
  using assms by (simp add: comparator_def)

subsection \<open>Order of the sorted array\<close>

text \<open>
  An item that moves ahead of every element of the front part \<open>as\<close> of what is
  placed goes on into the rest; an item that moves ahead of nothing stays last.
\<close>

lemma insert_item_pass:
  "\<forall>p\<in>set as. moves_ahead ord cmp item p \<Longrightarrow>
   insert_item ord cmp item (as @ ps) = as @ insert_item ord cmp item ps"
  by (induction as) auto

lemma insert_item_stop:
  "(\<And>p. p \<in> set ps \<Longrightarrow> \<not> moves_ahead ord cmp item p) \<Longrightarrow>
   insert_item ord cmp item ps = item # ps"
  by (cases ps) auto

text \<open>
  Under a numeric attribute the placed part, read back to front, always has the
  courses without a value in front of the courses with one, whichever way the
  engine calls the callback.
\<close>

lemma placed_absent_first:
  assumes "attribute cfg \<noteq> Name"
  shows "\<exists>as ps.
           foldl (\<lambda>placed item. insert_item ord (comparator lc cfg) item placed) [] xs =
             as @ ps \<and>
           (\<forall>c\<in>set as. numeric (attribute cfg) c = None) \<and>
           (\<forall>c\<in>set ps. numeric (attribute cfg) c \<noteq> None)"
proof (induction xs rule: rev_induct)
  case Nil
  show ?case by simp
next
  case (snoc x xs)
  let ?cmp = "comparator lc cfg"
  let ?key = "numeric (attribute cfg)"
  from snoc obtain as ps where
    placed: "foldl (\<lambda>placed item. insert_item ord ?cmp item placed) [] xs = as @ ps"
    and as: "\<forall>c\<in>set as. ?key c = None" and ps: "\<forall>c\<in>set ps. ?key c \<noteq> None"
    by blast
  show ?case
  proof (cases "?key x")
    case (Some v)
    have "\<forall>p\<in>set as. moves_ahead ord ?cmp x p"
      using assms as Some
      by (simp add: moves_ahead_def comparator_def split: call_order.splits)
    then have "insert_item ord ?cmp x (as @ ps) = as @ insert_item ord ?cmp x ps"
      by (rule insert_item_pass)
    moreover have "\<forall>c\<in>set (insert_item ord ?cmp x ps). ?key c \<noteq> None"
      using ps Some by (simp add: set_insert_item)
    ultimately show ?thesis using placed as by auto
  next
    case None
    show ?thesis
    proof (cases ord)
      case Item_Placed
      have "insert_item ord ?cmp x (as @ ps) = x # as @ ps"
        using assms None Item_Placed
        by (intro insert_item_stop) (simp add: moves_ahead_def comparator_def)
      then have
        "foldl (\<lambda>placed item. insert_item ord ?cmp item placed) [] (xs @ [x]) =
         (x # as) @ ps"
        using placed by simp
      moreover have "\<forall>c\<in>set (x # as). ?key c = None"
        using as None by simp
      ultimately show ?thesis using ps by blast
    next
      case Placed_Item
      have "\<forall>p\<in>set as. moves_ahead ord ?cmp x p"
        using assms as None Placed_Item by (simp add: moves_ahead_def comparator_def)
      then have "insert_item ord ?cmp x (as @ ps) = as @ insert_item ord ?cmp x ps"
        by (rule insert_item_pass)
      moreover have "insert_item ord ?cmp x ps = x # ps"
        using assms ps None Placed_Item
        by (intro insert_item_stop) (auto simp add: moves_ahead_def comparator_def)
      ultimately have
        "foldl (\<lambda>placed item. insert_item ord ?cmp item placed) [] (xs @ [x]) =
         (as @ [x]) @ ps"
        using placed by simp
      moreover have "\<forall>c\<in>set (as @ [x]). ?key c = None"
        using as None by simp
      ultimately show ?thesis using ps by blast
    qed
  qed
qed

text \<open>
  So the sorted array is the courses that have the attribute, followed by the
  courses that lack it, in either direction and for either call order.
\<close>

lemma array_sort_absent_last:
  assumes "attribute cfg \<noteq> Name"
  shows "\<exists>ps as. array_sort ord (comparator lc cfg) xs = ps @ as \<and>
           (\<forall>c\<in>set ps. numeric (attribute cfg) c \<noteq> None) \<and>
           (\<forall>c\<in>set as. numeric (attribute cfg) c = None)"
proof -
  from placed_absent_first [OF assms, of ord lc xs] obtain as ps where
    "foldl (\<lambda>placed item. insert_item ord (comparator lc cfg) item placed) [] xs = as @ ps"
    and as: "\<forall>c\<in>set as. numeric (attribute cfg) c = None"
    and ps: "\<forall>c\<in>set ps. numeric (attribute cfg) c \<noteq> None"
    by blast
  then have "array_sort ord (comparator lc cfg) xs = rev ps @ rev as"
    by (simp add: array_sort_def)
  with as ps show ?thesis
    by (intro exI [of _ "rev ps"] exI [of _ "rev as"]) simp
qed

text \<open>
  Stability. If no two elements of a class \<open>P\<close> ever move ahead of one another,
  the elements of \<open>P\<close> leave the sort in the order in which they entered it.
\<close>

lemma filter_insert_item_same:
  assumes "P item" and "\<And>p. P p \<Longrightarrow> \<not> moves_ahead ord cmp item p"
  shows "filter P (insert_item ord cmp item ps) = item # filter P ps"
  using assms by (induction ps) auto

lemma filter_insert_item_other:
  "\<not> P item \<Longrightarrow> filter P (insert_item ord cmp item ps) = filter P ps"
  by (induction ps) auto

lemma filter_foldl_insert_item:
  assumes "\<And>a b. P a \<Longrightarrow> P b \<Longrightarrow> \<not> moves_ahead ord cmp a b"
  shows "filter P (foldl (\<lambda>placed item. insert_item ord cmp item placed) acc xs) =
         rev (filter P xs) @ filter P acc"
proof (induction xs arbitrary: acc)
  case Nil
  show ?case by simp
next
  case (Cons x xs)
  show ?case
  proof (cases "P x")
    case True
    then have "filter P (insert_item ord cmp x acc) = x # filter P acc"
      using assms by (simp add: filter_insert_item_same)
    with True Cons show ?thesis by simp
  next
    case False
    then show ?thesis using Cons by (simp add: filter_insert_item_other)
  qed
qed

lemma array_sort_stable:
  assumes "\<And>a b. P a \<Longrightarrow> P b \<Longrightarrow> \<not> moves_ahead ord cmp a b"
  shows "filter P (array_sort ord cmp xs) = filter P xs"
  using filter_foldl_insert_item [of P ord cmp "[]" xs] assms
  by (simp add: array_sort_def rev_filter [symmetric])

text \<open>
  Courses with the same present value of the sort attribute keep their order, for
  either call order: the callback is 0 on them.
\<close>

lemma array_sort_stable_present:
  assumes "attribute cfg \<noteq> Name"
  shows "filter (\<lambda>c. numeric (attribute cfg) c = Some k)
           (array_sort ord (comparator lc cfg) xs) =
         filter (\<lambda>c. numeric (attribute cfg) c = Some k) xs"
  using assms
  by (intro array_sort_stable)
    (simp add: moves_ahead_def comparator_def split: call_order.splits)

text \<open>Courses with the same name keep their order when equal names compare as 0.\<close>

lemma array_sort_stable_name:
  assumes "attribute cfg = Name" and "lc k k = 0"
  shows "filter (\<lambda>c. name c = k) (array_sort ord (comparator lc cfg) xs) =
         filter (\<lambda>c. name c = k) xs"
  using assms
  by (intro array_sort_stable)
    (simp add: moves_ahead_def comparator_def split: call_order.splits)

text \<open>
  Courses that lack the sort attribute keep their order when the engine asks
  \<^verbatim>\<open>comparefn(item, placed) < 0\<close>: the callback answers 1.
\<close>

lemma array_sort_stable_absent_item_placed:
  assumes "attribute cfg \<noteq> Name"
  shows "filter (\<lambda>c. numeric (attribute cfg) c = None)
           (array_sort Item_Placed (comparator lc cfg) xs) =
         filter (\<lambda>c. numeric (attribute cfg) c = None) xs"
  using assms
  by (intro array_sort_stable) (simp add: moves_ahead_def comparator_def)

lemma unrated_state_admits:
  "filtered (toggleSort Rating (setMinReviewCount (Fin 0) initial_state))
     [course_a, course_b] = [course_a, course_b]"
  by (simp add: filtered_def admits_def between_def js_or_def js_ge_def
      initial_state_def toggleSort_def setMinReviewCount_def course_a_def course_b_def)

lemma unrated_state_sort:
  "sort_state (toggleSort Rating (setMinReviewCount (Fin 0) initial_state)) =
   \<lparr> attribute = Rating, direction = Asc \<rparr>"
  by (simp add: initial_state_def toggleSort_def setMinReviewCount_def)

text \<open>
  The user sets the minimum review count to 0 and sorts by rating; \<open>course_a\<close>
  and \<open>course_b\<close> have no rating. When the engine asks
  \<^verbatim>\<open>comparefn(item, placed) < 0\<close> the two courses stay as they were.
\<close>

lemma unrated_pair_item_placed:
  "current Item_Placed lc (toggleSort Rating (setMinReviewCount (Fin 0) initial_state))
     [course_a, course_b] = [course_a, course_b]"
  by (simp add: current_def unrated_state_admits unrated_state_sort)
    (simp add: array_sort_def moves_ahead_def comparator_def course_a_def course_b_def)

text \<open>
  With the other call order the same pair comes out reversed. The callback answers
  1 for \<open>(course_a, course_b)\<close> and 1 for \<open>(course_b, course_a)\<close>: for two
  absent values it reports no tie and says of each course that it comes after the
  other, so it is not a consistent comparison function, and the order of two such
  courses is the engine's choice rather than the callback's. The relative order of
  courses that lack the sort attribute is thus not fixed by the view's own code.
\<close>

lemma unrated_pair_placed_item:
  "rating course_a = None \<and> rating course_b = None \<and>
   comparator lc (sort_state (toggleSort Rating (setMinReviewCount (Fin 0) initial_state)))
     course_a course_b = 1 \<and>
   comparator lc (sort_state (toggleSort Rating (setMinReviewCount (Fin 0) initial_state)))
     course_b course_a = 1 \<and>
   current Placed_Item lc (toggleSort Rating (setMinReviewCount (Fin 0) initial_state))
     [course_a, course_b] = [course_b, course_a]"
  by (simp add: current_def unrated_state_admits unrated_state_sort)
    (simp add: array_sort_def moves_ahead_def comparator_def course_a_def course_b_def)

subsection \<open>Malformed and zero bounds\<close>

lemma js_or_None: "js_or None d = d"
  by (simp add: js_or_def)

lemma admits_falsy_bound:
  assumes "\<And>d. js_or (Some v) d = d"
  shows "admits (setMinReviewCount v st) c = admits (st\<lparr>minReviewCount := None\<rparr>) c"
    and "admits (setMaxReviewCount v st) c = admits (st\<lparr>maxReviewCount := None\<rparr>) c"
    and "admits (setMinRating v st) c = admits (st\<lparr>minRating := None\<rparr>) c"
    and "admits (setMaxRating v st) c = admits (st\<lparr>maxRating := None\<rparr>) c"
    and "admits (setMinDifficulty v st) c = admits (st\<lparr>minDifficulty := None\<rparr>) c"
    and "admits (setMaxDifficulty v st) c = admits (st\<lparr>maxDifficulty := None\<rparr>) c"
    and "admits (setMinWorkload v st) c = admits (st\<lparr>minWorkload := None\<rparr>) c"
    and "admits (setMaxWorkload v st) c = admits (st\<lparr>maxWorkload := None\<rparr>) c"
  by (simp_all add: admits_def assms js_or_None setMinReviewCount_def setMaxReviewCount_def
      setMinRating_def setMaxRating_def setMinDifficulty_def setMaxDifficulty_def
      setMinWorkload_def setMaxWorkload_def)

lemma falsy_bound_defaults:
  assumes "\<And>d. js_or (Some v) d = d"
  shows "js_or (minReviewCount (setMinReviewCount v st)) (Fin 0) = Fin 0"
    and "js_or (maxReviewCount (setMaxReviewCount v st)) PosInf = PosInf"
    and "js_or (minRating (setMinRating v st)) (Fin 1) = Fin 1"
    and "js_or (maxRating (setMaxRating v st)) (Fin 5) = Fin 5"
    and "js_or (minDifficulty (setMinDifficulty v st)) (Fin 1) = Fin 1"
    and "js_or (maxDifficulty (setMaxDifficulty v st)) (Fin 5) = Fin 5"
    and "js_or (minWorkload (setMinWorkload v st)) (Fin 1) = Fin 1"
    and "js_or (maxWorkload (setMaxWorkload v st)) (Fin 100) = Fin 100"
  by (simp_all add: assms setMinReviewCount_def setMaxReviewCount_def
      setMinRating_def setMaxRating_def setMinDifficulty_def setMaxDifficulty_def
      setMinWorkload_def setMaxWorkload_def)

text \<open>
  Claim C7. When the text of a bound does not parse (\<^verbatim>\<open>parseFloat\<close> returns
  \<^verbatim>\<open>NaN\<close> and the handler stores it), the bound in effect is the default of the
  attribute's domain: 0 and no upper limit for the review count, 1 and 5 for
  rating and difficulty, 1 and 100 for the workload; it is not 0 where the default
  is not 0. The filter then admits exactly the courses it admits with that bound
  absent. The filter callback is a total function: no branch of it raises.
\<close>

theorem nan_bound_is_no_bound:
  "js_or (minReviewCount (setMinReviewCount NaN st)) (Fin 0) = Fin 0 \<and>
   js_or (maxReviewCount (setMaxReviewCount NaN st)) PosInf = PosInf \<and>
   js_or (minRating (setMinRating NaN st)) (Fin 1) = Fin 1 \<and>
   js_or (maxRating (setMaxRating NaN st)) (Fin 5) = Fin 5 \<and>
   js_or (minDifficulty (setMinDifficulty NaN st)) (Fin 1) = Fin 1 \<and>
   js_or (maxDifficulty (setMaxDifficulty NaN st)) (Fin 5) = Fin 5 \<and>
   js_or (minWorkload (setMinWorkload NaN st)) (Fin 1) = Fin 1 \<and>
   js_or (maxWorkload (setMaxWorkload NaN st)) (Fin 100) = Fin 100 \<and>
   admits (setMinReviewCount NaN st) c = admits (st\<lparr>minReviewCount := None\<rparr>) c \<and>
   admits (setMaxReviewCount NaN st) c = admits (st\<lparr>maxReviewCount := None\<rparr>) c \<and>
   admits (setMinRating NaN st) c = admits (st\<lparr>minRating := None\<rparr>) c \<and>
   admits (setMaxRating NaN st) c = admits (st\<lparr>maxRating := None\<rparr>) c \<and>
   admits (setMinDifficulty NaN st) c = admits (st\<lparr>minDifficulty := None\<rparr>) c \<and>
   admits (setMaxDifficulty NaN st) c = admits (st\<lparr>maxDifficulty := None\<rparr>) c \<and>
   admits (setMinWorkload NaN st) c = admits (st\<lparr>minWorkload := None\<rparr>) c \<and>
   admits (setMaxWorkload NaN st) c = admits (st\<lparr>maxWorkload := None\<rparr>) c"
proof -
  have falsy: "\<And>d. js_or (Some NaN) d = d"
    by (simp add: js_or_def)
  show ?thesis
    by (simp add: falsy_bound_defaults [OF falsy] admits_falsy_bound [OF falsy])
qed

text \<open>
  Claim C10. A bound whose parsed value is exactly 0 is handled like an absent
  bound: the bound in effect is the default of the attribute's domain (a maximum
  rating of 0 gives the maximum 5), and the filter admits exactly the courses it
  admits with that bound absent.
\<close>

theorem zero_bound_is_no_bound:
  "js_or (minReviewCount (setMinReviewCount (Fin 0) st)) (Fin 0) = Fin 0 \<and>
   js_or (maxReviewCount (setMaxReviewCount (Fin 0) st)) PosInf = PosInf \<and>
   js_or (minRating (setMinRating (Fin 0) st)) (Fin 1) = Fin 1 \<and>
   js_or (maxRating (setMaxRating (Fin 0) st)) (Fin 5) = Fin 5 \<and>
   js_or (minDifficulty (setMinDifficulty (Fin 0) st)) (Fin 1) = Fin 1 \<and>
   js_or (maxDifficulty (setMaxDifficulty (Fin 0) st)) (Fin 5) = Fin 5 \<and>
   js_or (minWorkload (setMinWorkload (Fin 0) st)) (Fin 1) = Fin 1 \<and>
   js_or (maxWorkload (setMaxWorkload (Fin 0) st)) (Fin 100) = Fin 100 \<and>
   admits (setMinReviewCount (Fin 0) st) c = admits (st\<lparr>minReviewCount := None\<rparr>) c \<and>
   admits (setMaxReviewCount (Fin 0) st) c = admits (st\<lparr>maxReviewCount := None\<rparr>) c \<and>
   admits (setMinRating (Fin 0) st) c = admits (st\<lparr>minRating := None\<rparr>) c \<and>
   admits (setMaxRating (Fin 0) st) c = admits (st\<lparr>maxRating := None\<rparr>) c \<and>
   admits (setMinDifficulty (Fin 0) st) c = admits (st\<lparr>minDifficulty := None\<rparr>) c \<and>
   admits (setMaxDifficulty (Fin 0) st) c = admits (st\<lparr>maxDifficulty := None\<rparr>) c \<and>
   admits (setMinWorkload (Fin 0) st) c = admits (st\<lparr>minWorkload := None\<rparr>) c \<and>
   admits (setMaxWorkload (Fin 0) st) c = admits (st\<lparr>maxWorkload := None\<rparr>) c"
proof -
  have falsy: "\<And>d. js_or (Some (Fin 0)) d = d"
    by (simp add: js_or_def)
  show ?thesis
    by (simp add: falsy_bound_defaults [OF falsy] admits_falsy_bound [OF falsy])
qed

subsection \<open>Page clamp\<close>

lemma floor_length_div:
  "0 < p \<Longrightarrow> \<lfloor>real n / real_of_int p\<rfloor> = int n div p"
  using floor_divide_of_int_eq [of "int n" p] by simp

lemma page_clamp_fires:
  assumes "0 < pageSize st" and "int (length cur) \<le> pageSize st * pageNumber st"
  shows "page_clamp st cur = st\<lparr>pageNumber := int (length cur) div pageSize st\<rparr>"
  using assms by (simp add: page_clamp_def floor_length_div)

lemma page_clamp_idle:
  assumes "pageSize st * pageNumber st < int (length cur)"
  shows "page_clamp st cur = st"
  using assms by (simp add: page_clamp_def)

text \<open>
  The example of the specification: 15 results, pages of 10, page 2 becomes
  page 1.
\<close>

lemma page_clamp_example:
  assumes "length cur = 15" and "pageSize st = 10" and "pageNumber st = 2"
  shows "pageNumber (page_clamp st cur) = 1"
  using assms by (simp add: page_clamp_def)

text \<open>
  After the clamp the page starts inside the results (or at 0 when there are
  none), except when the clamp fires on a non-empty result whose length is a
  multiple of the page size.
\<close>

lemma page_clamp_invariant:
  assumes "0 < pageSize st"
    and "\<not> (0 < length cur \<and> pageSize st dvd int (length cur) \<and>
            int (length cur) \<le> pageSize st * pageNumber st)"
  shows "pageNumber (page_clamp st cur) * pageSize (page_clamp st cur) <
         max (int (length cur)) 1"
proof (cases "int (length cur) \<le> pageSize st * pageNumber st")
  case False
  then show ?thesis by (simp add: page_clamp_idle mult.commute)
next
  case True
  let ?n = "int (length cur)" and ?p = "pageSize st"
  have le: "?n div ?p * ?p \<le> ?n"
    using assms(1) by (metis div_mult_mod_eq pos_mod_sign le_add_same_cancel1)
  have "?n div ?p * ?p < max ?n 1"
  proof (cases "length cur = 0")
    case True
    then show ?thesis by simp
  next
    case False
    with assms(2) True have "\<not> ?p dvd ?n" by simp
    then have "?n div ?p * ?p \<noteq> ?n" by (metis dvd_triv_right)
    with le show ?thesis by simp
  qed
  then show ?thesis using assms(1) True by (simp add: page_clamp_fires)
qed

text \<open>In the excepted case the page starts exactly at the end of the results.\<close>

lemma page_clamp_multiple:
  assumes "0 < pageSize st" and "pageSize st dvd int (length cur)"
    and "int (length cur) \<le> pageSize st * pageNumber st"
  shows "pageNumber (page_clamp st cur) * pageSize (page_clamp st cur) =
         int (length cur)"
  using assms by (simp add: page_clamp_fires)

lemma catalogue_all_admitted:
  "filtered (setPageNumber 2 initial_state) catalogue = catalogue"
  by (simp add: filtered_def catalogue_def admits_def between_def js_or_def js_ge_def
      initial_state_def setPageNumber_def course_c_def course_d_def)

lemma catalogue_rated_three_up:
  "filtered (setMinRating (Fin 3) (setPageNumber 2 initial_state)) catalogue =
   replicate 20 course_c"
  by (simp add: filtered_def catalogue_def admits_def between_def js_or_def js_ge_def
      initial_state_def setPageNumber_def setMinRating_def course_c_def course_d_def)

lemma page_three_of_catalogue:
  "recompute ord lc (setPageNumber 2 initial_state) catalogue =
   setPageNumber 2 initial_state"
  by (simp add: recompute_def page_clamp_def length_current catalogue_all_admitted)
    (simp add: catalogue_def setPageNumber_def initial_state_def)

lemma recompute_rated_three_up:
  "recompute ord lc (setMinRating (Fin 3) (setPageNumber 2 initial_state)) catalogue =
   setMinRating (Fin 3) (setPageNumber 2 initial_state)"
  by (simp add: recompute_def page_clamp_def length_current catalogue_rated_three_up)
    (simp add: setPageNumber_def setMinRating_def initial_state_def)

text \<open>
  Claim C1, at an input where the code departs from it. The catalogue has 23
  admitted courses and the view shows the third page (page number 2, pages of
  10), which is a valid page. The user raises the minimum rating to 3 and 20
  courses remain. The clamp fires, since \<open>10 * 2 \<ge> 20\<close>, and sets the page number to
  \<open>\<lfloor>20 / 10\<rfloor> = 2\<close>: the page number stays 2, the page starts at index 20 of 20
  results, the invariant \<open>pageNumber * pageSize < max(length, 1)\<close> does not hold
  and the visible slice is empty. Another render changes nothing.
\<close>

theorem page_clamp_leaves_page_past_end:
  "length (current ord lc (setPageNumber 2 initial_state) catalogue) = 23 \<and>
   (let st = recompute ord lc (setMinRating (Fin 3) (setPageNumber 2 initial_state))
               catalogue;
        cur = current ord lc st catalogue
    in length cur = 20 \<and> pageSize st = 10 \<and> pageNumber st = 2 \<and>
       \<not> pageNumber st * pageSize st < max (int (length cur)) 1 \<and>
       slice_page st cur = [] \<and>
       recompute ord lc st catalogue = st)"
  by (simp add: recompute_rated_three_up length_current catalogue_all_admitted
      catalogue_rated_three_up slice_page_def)
    (simp add: catalogue_def setPageNumber_def setMinRating_def initial_state_def)

end
